theory Spec2Isabelle
  imports Main "HOL-Library.Multiset"
begin

section \<open>Native types (package reflect)\<close>

text \<open>
  The builder sees Go types through package \<open>reflect\<close>. \<open>reflect_Kind\<close> is
  \<open>reflect.Kind\<close>. A type is a pointer, slice, array or map type built from other
  types, or a type that stands for itself: a predeclared or declared type whose kind is
  none of those four, identified by its package path and name (two types of the same name
  in two packages are two types). \<open>BaseKind\<close> lists the kinds such a type can have.
  A declared type whose underlying type is a pointer, slice, array or map is not
  represented.
\<close>

datatype reflect_Kind =
    KBool | KInt | KInt8 | KInt16 | KInt32 | KInt64
  | KUint | KUint8 | KUint16 | KUint32 | KUint64 | KUintptr
  | KFloat32 | KFloat64 | KComplex64 | KComplex128
  | KArray | KChan | KFunc | KInterface | KMap | KPtr | KSlice
  | KString | KStruct | KUnsafePointer

datatype BaseKind =
    BBool | BInt | BInt8 | BInt16 | BInt32 | BInt64
  | BUint | BUint8 | BUint16 | BUint32 | BUint64 | BUintptr
  | BFloat32 | BFloat64 | BComplex64 | BComplex128
  | BChan | BFunc | BInterface | BString | BStruct | BUnsafePointer

fun kind_of_base :: "BaseKind \<Rightarrow> reflect_Kind" where
  "kind_of_base BBool = KBool"
| "kind_of_base BInt = KInt"
| "kind_of_base BInt8 = KInt8"
| "kind_of_base BInt16 = KInt16"
| "kind_of_base BInt32 = KInt32"
| "kind_of_base BInt64 = KInt64"
| "kind_of_base BUint = KUint"
| "kind_of_base BUint8 = KUint8"
| "kind_of_base BUint16 = KUint16"
| "kind_of_base BUint32 = KUint32"
| "kind_of_base BUint64 = KUint64"
| "kind_of_base BUintptr = KUintptr"
| "kind_of_base BFloat32 = KFloat32"
| "kind_of_base BFloat64 = KFloat64"
| "kind_of_base BComplex64 = KComplex64"
| "kind_of_base BComplex128 = KComplex128"
| "kind_of_base BChan = KChan"
| "kind_of_base BFunc = KFunc"
| "kind_of_base BInterface = KInterface"
| "kind_of_base BString = KString"
| "kind_of_base BStruct = KStruct"
| "kind_of_base BUnsafePointer = KUnsafePointer"

datatype gotype =
    Named BaseKind (PkgPath: string) (PkgName: string) (TypeName: string)
  | PtrTo gotype
  | SliceOf gotype
  | ArrayOf nat gotype
  | MapOf gotype gotype

fun Kind :: "gotype \<Rightarrow> reflect_Kind" where
  "Kind (Named k _ _ _) = kind_of_base k"
| "Kind (PtrTo _) = KPtr"
| "Kind (SliceOf _) = KSlice"
| "Kind (ArrayOf _ _) = KArray"
| "Kind (MapOf _ _) = KMap"

text \<open>
  \<open>Type.Elem()\<close>: the element type of a pointer, slice, array or map type. Go panics on
  any other type; every call of the source is behind a test of the kind, and the
  equation for \<open>Named\<close> is never reached from them.
\<close>

fun Elem :: "gotype \<Rightarrow> gotype" where
  "Elem (PtrTo t) = t"
| "Elem (SliceOf t) = t"
| "Elem (ArrayOf _ t) = t"
| "Elem (MapOf _ t) = t"
| "Elem (Named k p q n) = Named k p q n"

text \<open>The three marker types of arginfo.go.\<close>

definition ContextType :: gotype where
  "ContextType = Named BInterface ''context'' ''context'' ''Context''"

definition InfoType :: gotype where
  "InfoType = Named BStruct ''github.com/graphql-go/graphql'' ''graphql'' ''ResolveInfo''"

definition ErrorType :: gotype where
  "ErrorType = Named BInterface [] [] ''error''"

text \<open>
  What \<open>reflect\<close> answers about a struct type. \<open>Fields\<close> are the fields
  \<open>Field(0) .. Field(NumField()-1)\<close>, \<open>Visible\<close> is \<open>reflect.VisibleFields\<close> (the
  fields and the fields promoted from embedded structs), \<open>Methods\<close> the method set of
  the type and \<open>PtrMethods\<close> the method set of the pointer to it. A field's tag is
  given as its key-value pairs; \<open>Tag_Get\<close> is \<open>StructTag.Get\<close>.
\<close>

record StructField =
  SName :: string
  SType :: gotype
  Tag :: "(string \<times> string) list"

definition Tag_Get :: "StructField \<Rightarrow> string \<Rightarrow> string" where
  "Tag_Get field key = (case map_of (Tag field) key of None \<Rightarrow> [] | Some v \<Rightarrow> v)"

text \<open>A runtime value, as far as the resolvers look at one.\<close>

datatype goval =
    VNil
  | VBool bool
  | VInt int
  | VString string
  | VError string
  | VPtr goval
  | VStruct gotype "(string \<times> goval) list"
  | VList "goval list"

record FuncType =
  In :: "gotype list"
  Out :: "gotype list"

record GoFunc =
  FType :: FuncType
  Call :: "goval list \<Rightarrow> goval list"

record Method =
  MName :: string
  MFunc :: GoFunc

record StructDecl =
  Fields :: "StructField list"
  Visible :: "StructField list"
  Methods :: "Method list"
  PtrMethods :: "Method list"

type_synonym TypeEnv = "(gotype \<times> StructDecl) list"

definition decl :: "TypeEnv \<Rightarrow> gotype \<Rightarrow> StructDecl" where
  "decl env t = (case map_of env t of
      None \<Rightarrow> \<lparr>Fields = [], Visible = [], Methods = [], PtrMethods = []\<rparr>
    | Some d \<Rightarrow> d)"

definition VisibleFields :: "TypeEnv \<Rightarrow> gotype \<Rightarrow> StructField list" where
  "VisibleFields env t = Visible (decl env t)"

section \<open>Errors\<close>

text \<open>
  The Go code reports every failure as an error value built by \<open>fmt.Errorf\<close>. Each
  constructor below stands for one message of the source; \<open>kind_of_error\<close> gives the kind of the
  error taxonomy it belongs to.
\<close>

datatype error =
    TagTooManyParts string
      \<comment> \<open>"Invalid gql tag expected fieldName, got: %s"\<close>
  | TagBadFlag string
      \<comment> \<open>"Invalid gql tag expected nonNull, got: %s"\<close>
  | NoReceiver
      \<comment> \<open>"Resolve method should have a receiver"\<close>
  | NotOnStruct gotype
      \<comment> \<open>"Resolve method should be hosted on a struct, got %s"\<close>
  | ArgsOverMax nat
      \<comment> \<open>"Resolve method should have at most %d arguments"\<close>
  | ReturnsOverMax
      \<comment> \<open>"Resolve method should have at most 2 return values"\<close>
  | SecondInput gotype
      \<comment> \<open>"Expected at most one input type, got %s"\<close>
  | SecondOutput gotype
      \<comment> \<open>"Expected at most one output type, got %s"\<close>
  | InputNotStruct gotype
      \<comment> \<open>"Input type should be a struct, got %s"\<close>
  | InputNoTag
      \<comment> \<open>"Input type should have at least one field with a gql tag"\<close>
  | UnboundNoOutput
      \<comment> \<open>"unbound resolvers should have an output type"\<close>
  | OutputNoTag
      \<comment> \<open>"Output type should have at least one field with a gql tag"\<close>

datatype error_kind =
    MalformedAnnotation | InvalidReceiver | TooManyArguments | TooManyReturns
  | AmbiguousInput | AmbiguousOutput | InvalidInputShape | InvalidOutputShape
  | MissingOutput

fun kind_of_error :: "error \<Rightarrow> error_kind" where
  "kind_of_error (TagTooManyParts _) = MalformedAnnotation"
| "kind_of_error (TagBadFlag _) = MalformedAnnotation"
| "kind_of_error NoReceiver = InvalidReceiver"
| "kind_of_error (NotOnStruct _) = InvalidReceiver"
| "kind_of_error (ArgsOverMax _) = TooManyArguments"
| "kind_of_error ReturnsOverMax = TooManyReturns"
| "kind_of_error (SecondInput _) = AmbiguousInput"
| "kind_of_error (SecondOutput _) = AmbiguousOutput"
| "kind_of_error (InputNotStruct _) = InvalidInputShape"
| "kind_of_error InputNoTag = InvalidInputShape"
| "kind_of_error UnboundNoOutput = MissingOutput"
| "kind_of_error OutputNoTag = InvalidOutputShape"

section \<open>Field annotation parser (tag.go)\<close>

record GqlTag =
  FieldName :: string
  NonNull :: bool

text \<open>
  \<open>strings.Split(s, sep)\<close> for a separator of one byte: the pieces between the
  separators, one more piece than there are separators, \<open>[""]\<close> for the empty string.
\<close>

fun Split :: "char \<Rightarrow> string \<Rightarrow> string list" where
  "Split sep [] = [[]]"
| "Split sep (c # cs) =
     (if c = sep then [] # Split sep cs
      else (case Split sep cs of
              [] \<Rightarrow> [[c]]
            | p # ps \<Rightarrow> (c # p) # ps))"

definition ParseGqlTag :: "string \<Rightarrow> error + GqlTag" where
  "ParseGqlTag tag =
     (let parts = Split (CHR '','') tag in
      if length parts > 2 then Inl (TagTooManyParts tag)
      else if length parts = 2 then
        (if parts ! 1 = ''nonNull''
         then Inr \<lparr>FieldName = parts ! 0, NonNull = True\<rparr>
         else Inl (TagBadFlag (parts ! 1)))
      else Inr \<lparr>FieldName = parts ! 0, NonNull = False\<rparr>)"

definition GqlTagKey :: string where
  "GqlTagKey = ''gql''"

definition ParseGqlTagFromField :: "StructField \<Rightarrow> error + GqlTag" where
  "ParseGqlTagFromField field = ParseGqlTag (Tag_Get field GqlTagKey)"

definition GetGqlTag :: "StructField \<Rightarrow> error + (string \<times> bool)" where
  "GetGqlTag field = (case ParseGqlTagFromField field of
      Inl err \<Rightarrow> Inl err
    | Inr gqlTag \<Rightarrow> Inr (FieldName gqlTag, NonNull gqlTag))"

section \<open>Argument classifier (arginfo.go, resolveinfo.go)\<close>

record ArgInfo =
  Type :: gotype
  RealType :: gotype
  Index :: nat
  IsPtr :: bool
  IsSlice :: bool

definition NewArgInfo :: "gotype \<Rightarrow> nat \<Rightarrow> ArgInfo" where
  "NewArgInfo argType index =
     (let isPtr = (Kind argType = KPtr);
          isSlice = (Kind argType = KSlice);
          realType = (if isPtr \<or> isSlice then Elem argType else argType)
      in \<lparr>Type = argType, RealType = realType, Index = index,
          IsPtr = isPtr, IsSlice = isSlice\<rparr>)"

record ResolveInfo =
  Func :: GoFunc
  IsBound :: bool
  Source :: "ArgInfo option"
  Context :: "ArgInfo option"
  Info :: "ArgInfo option"
  Input :: "ArgInfo option"
  Output :: "ArgInfo option"
  Error :: "ArgInfo option"

definition hasStructValidGqlTag :: "TypeEnv \<Rightarrow> gotype \<Rightarrow> bool" where
  "hasStructValidGqlTag env t =
     list_ex (\<lambda>field. case ParseGqlTagFromField field of
                         Inl err \<Rightarrow> False
                       | Inr tag \<Rightarrow> FieldName tag \<noteq> [])
             (VisibleFields env t)"

definition Validate :: "TypeEnv \<Rightarrow> ResolveInfo \<Rightarrow> error option" where
  "Validate env r =
     (case (case Input r of
              None \<Rightarrow> None
            | Some inp \<Rightarrow>
                if Kind (RealType inp) \<noteq> KStruct \<or> IsSlice inp
                then Some (InputNotStruct (Type inp))
                else if \<not> hasStructValidGqlTag env (RealType inp)
                then Some InputNoTag
                else None) of
        Some err \<Rightarrow> Some err
      | None \<Rightarrow>
          (case Output r of
             None \<Rightarrow> if \<not> IsBound r then Some UnboundNoOutput else None
           | Some out \<Rightarrow>
               if Kind (RealType out) = KStruct \<and> \<not> hasStructValidGqlTag env (RealType out)
               then Some OutputNoTag
               else None))"

text \<open>
  The loop over the parameters from \<open>baseIndex\<close> on: \<open>i\<close> is the index of the first
  type of the list.
\<close>

fun inLoop :: "nat \<Rightarrow> gotype list \<Rightarrow> ResolveInfo \<Rightarrow> error + ResolveInfo" where
  "inLoop i [] r = Inr r"
| "inLoop i (t # ts) r =
     (let argInfo = NewArgInfo t i in
      if RealType argInfo = ContextType then inLoop (Suc i) ts (r\<lparr>Context := Some argInfo\<rparr>)
      else if RealType argInfo = InfoType then inLoop (Suc i) ts (r\<lparr>Info := Some argInfo\<rparr>)
      else if Input r = None then inLoop (Suc i) ts (r\<lparr>Input := Some argInfo\<rparr>)
      else Inl (SecondInput (Type argInfo)))"

text \<open>The loop over the return values.\<close>

fun outLoop :: "nat \<Rightarrow> gotype list \<Rightarrow> ResolveInfo \<Rightarrow> error + ResolveInfo" where
  "outLoop i [] r = Inr r"
| "outLoop i (t # ts) r =
     (let argInfo = NewArgInfo t i in
      if RealType argInfo = ErrorType then outLoop (Suc i) ts (r\<lparr>Error := Some argInfo\<rparr>)
      else if Output r = None then outLoop (Suc i) ts (r\<lparr>Output := Some argInfo\<rparr>)
      else Inl (SecondOutput (Type argInfo)))"

text \<open>
  The part of \<open>NewResolveInfo\<close> after the receiver: the two counts, the two loops and
  \<open>Validate\<close>.
\<close>

definition classify :: "TypeEnv \<Rightarrow> nat \<Rightarrow> nat \<Rightarrow> ResolveInfo \<Rightarrow> error + ResolveInfo" where
  "classify env maxNumberOfArgs baseIndex r =
     (let ins = In (FType (Func r)); outs = Out (FType (Func r)) in
      if length ins > maxNumberOfArgs then Inl (ArgsOverMax maxNumberOfArgs)
      else if length outs > 2 then Inl ReturnsOverMax
      else (case inLoop baseIndex (drop baseIndex ins) r of
              Inl err \<Rightarrow> Inl err
            | Inr r1 \<Rightarrow>
               (case outLoop 0 outs r1 of
                  Inl err \<Rightarrow> Inl err
                | Inr r2 \<Rightarrow>
                   (case Validate env r2 of
                      Some err \<Rightarrow> Inl err
                    | None \<Rightarrow> Inr r2))))"

definition NewResolveInfo :: "TypeEnv \<Rightarrow> GoFunc \<Rightarrow> bool \<Rightarrow> error + ResolveInfo" where
  "NewResolveInfo env fn isBound =
     (let r = \<lparr>Func = fn, IsBound = isBound, Source = None, Context = None, Info = None,
               Input = None, Output = None, Error = None\<rparr>
      in if isBound then
           (case In (FType fn) of
              [] \<Rightarrow> Inl NoReceiver
            | recv # _ \<Rightarrow>
                (let src = NewArgInfo recv 0 in
                 if Kind (RealType src) \<noteq> KStruct then Inl (NotOnStruct (Type src))
                 else classify env 4 1 (r\<lparr>Source := Some src\<rparr>)))
         else classify env 3 0 r)"




section \<open>Example signatures\<close>

text \<open>Types and functions used where a property is shown at a concrete input.\<close>

definition int_t :: gotype where "int_t = Named BInt [] [] ''int''"
definition string_t :: gotype where "string_t = Named BString [] [] ''string''"
definition Host_t :: gotype where "Host_t = Named BStruct ''gql'' ''gql'' ''Host''"

definition noCall :: "goval list \<Rightarrow> goval list" where "noCall args = []"

definition mkFunc :: "gotype list \<Rightarrow> gotype list \<Rightarrow> GoFunc" where
  "mkFunc ins outs = \<lparr>FType = \<lparr>In = ins, Out = outs\<rparr>, Call = noCall\<rparr>"





section \<open>Properties of the annotation parser\<close>

lemma Split_nonempty: "Split sep s \<noteq> []"
  by (induction s) (auto split: list.splits)

lemma length_Split: "length (Split sep s) = Suc (count_list s sep)"
  by (induction s) (auto split: list.splits)

lemma Split_no_sep: "sep \<notin> set s \<Longrightarrow> Split sep s = [s]"
  by (induction s) auto

lemma Split_one_sep:
  "sep \<notin> set l \<Longrightarrow> Split sep (l @ sep # r) = l # Split sep r"
  by (induction l) (auto split: list.splits simp: Split_nonempty)

lemma count_list_0_iff: "count_list s c = 0 \<longleftrightarrow> c \<notin> set s"
  by (induction s) auto

lemma count_list_one_split:
  "count_list s c = Suc 0 \<Longrightarrow> \<exists>l r. s = l @ c # r \<and> c \<notin> set l \<and> c \<notin> set r"
proof (induction s)
  case Nil
  then show ?case by simp
next
  case (Cons x xs)
  show ?case
  proof (cases "x = c")
    case True
    with Cons.prems have "c \<notin> set xs" by (simp add: count_list_0_iff)
    with True have "x # xs = [] @ c # xs \<and> c \<notin> set [] \<and> c \<notin> set xs" by simp
    then show ?thesis by blast
  next
    case False
    with Cons.prems have "count_list xs c = Suc 0" by simp
    from Cons.IH [OF this] obtain l r where
      "xs = l @ c # r" "c \<notin> set l" "c \<notin> set r" by blast
    with False have "x # xs = (x # l) @ c # r \<and> c \<notin> set (x # l) \<and> c \<notin> set r" by simp
    then show ?thesis by blast
  qed
qed

text \<open>
  C3. A tag with no comma parses to the whole string as the exposed name, nonNull false.
  A tag with exactly one comma whose right part is the token nonNull parses to the left
  part as the exposed name, nonNull true. A tag with two or more commas, or with one
  comma and any other right part, is a format error.
\<close>

theorem ParseGqlTag_grammar:
  "(count_list tag (CHR '','') = 0 \<longrightarrow>
      ParseGqlTag tag = Inr \<lparr>FieldName = tag, NonNull = False\<rparr>) \<and>
   (count_list tag (CHR '','') = 1 \<longrightarrow>
      (\<exists>l r. tag = l @ CHR '','' # r \<and> CHR '','' \<notin> set l \<and> CHR '','' \<notin> set r \<and>
         (r = ''nonNull'' \<longrightarrow> ParseGqlTag tag = Inr \<lparr>FieldName = l, NonNull = True\<rparr>) \<and>
         (r \<noteq> ''nonNull'' \<longrightarrow> ParseGqlTag tag = Inl (TagBadFlag r)))) \<and>
   (count_list tag (CHR '','') \<ge> 2 \<longrightarrow> ParseGqlTag tag = Inl (TagTooManyParts tag))"
proof (intro conjI impI)
  assume "count_list tag (CHR '','') = 0"
  then have "CHR '','' \<notin> set tag" by (simp add: count_list_0_iff)
  then show "ParseGqlTag tag = Inr \<lparr>FieldName = tag, NonNull = False\<rparr>"
    by (simp add: ParseGqlTag_def Split_no_sep)
next
  assume "count_list tag (CHR '','') = 1"
  then obtain l r where lr: "tag = l @ CHR '','' # r" "CHR '','' \<notin> set l" "CHR '','' \<notin> set r"
    using count_list_one_split [of tag "CHR '',''"] by auto
  then have sp: "Split (CHR '','') tag = [l, r]"
    by (simp add: Split_one_sep Split_no_sep)
  have "r = ''nonNull'' \<longrightarrow> ParseGqlTag tag = Inr \<lparr>FieldName = l, NonNull = True\<rparr>"
    by (simp add: ParseGqlTag_def sp)
  moreover have "r \<noteq> ''nonNull'' \<longrightarrow> ParseGqlTag tag = Inl (TagBadFlag r)"
    by (simp add: ParseGqlTag_def sp)
  ultimately show "\<exists>l r. tag = l @ CHR '','' # r \<and> CHR '','' \<notin> set l \<and> CHR '','' \<notin> set r \<and>
         (r = ''nonNull'' \<longrightarrow> ParseGqlTag tag = Inr \<lparr>FieldName = l, NonNull = True\<rparr>) \<and>
         (r \<noteq> ''nonNull'' \<longrightarrow> ParseGqlTag tag = Inl (TagBadFlag r))"
    using lr by blast
next
  assume "2 \<le> count_list tag (CHR '','')"
  then have "length (Split (CHR '','') tag) > 2" by (simp add: length_Split)
  then show "ParseGqlTag tag = Inl (TagTooManyParts tag)"
    by (simp add: ParseGqlTag_def Let_def)
qed

theorem ParseGqlTag_grammar_witness:
  "ParseGqlTag ''name'' = Inr \<lparr>FieldName = ''name'', NonNull = False\<rparr> \<and>
   ParseGqlTag ''name,nonNull'' = Inr \<lparr>FieldName = ''name'', NonNull = True\<rparr> \<and>
   ParseGqlTag ''name,foo'' = Inl (TagBadFlag ''foo'') \<and>
   ParseGqlTag ''name,nonNull,foo'' = Inl (TagTooManyParts ''name,nonNull,foo'')"
proof -
  have a: "ParseGqlTag ''name'' = Inr \<lparr>FieldName = ''name'', NonNull = False\<rparr>"
    using ParseGqlTag_grammar [of "''name''"] by simp
  have "\<exists>l r. ''name,nonNull'' = l @ CHR '','' # r \<and> CHR '','' \<notin> set l \<and> CHR '','' \<notin> set r \<and>
         (r = ''nonNull'' \<longrightarrow> ParseGqlTag ''name,nonNull'' = Inr \<lparr>FieldName = l, NonNull = True\<rparr>) \<and>
         (r \<noteq> ''nonNull'' \<longrightarrow> ParseGqlTag ''name,nonNull'' = Inl (TagBadFlag r))"
    using ParseGqlTag_grammar [of "''name,nonNull''"] by simp
  then obtain l r where b0: "''name,nonNull'' = l @ CHR '','' # r" "CHR '','' \<notin> set l"
    and b1: "r = ''nonNull'' \<longrightarrow> ParseGqlTag ''name,nonNull'' = Inr \<lparr>FieldName = l, NonNull = True\<rparr>"
    by blast
  from b0 have "Split (CHR '','') ''name,nonNull'' = l # Split (CHR '','') r"
    by (metis Split_one_sep)
  then have "l = ''name'' \<and> r = ''nonNull''"
    using b0 by (simp add: append_eq_Cons_conv) (auto simp: Cons_eq_append_conv)
  with b1 have b: "ParseGqlTag ''name,nonNull'' = Inr \<lparr>FieldName = ''name'', NonNull = True\<rparr>"
    by simp
  have c: "ParseGqlTag ''name,foo'' = Inl (TagBadFlag ''foo'')"
    by (simp add: ParseGqlTag_def)
  have d: "ParseGqlTag ''name,nonNull,foo'' = Inl (TagTooManyParts ''name,nonNull,foo'')"
    using ParseGqlTag_grammar [of "''name,nonNull,foo''"] by simp
  show ?thesis using a b c d by simp
qed


section \<open>Properties of the argument classifier\<close>

lemma classify_over_args:
  "length (In (FType (Func r))) > m \<Longrightarrow> classify env m b r = Inl (ArgsOverMax m)"
  by (simp add: classify_def Let_def)

lemma classify_over_returns:
  "length (In (FType (Func r))) \<le> m \<Longrightarrow> length (Out (FType (Func r))) > 2
   \<Longrightarrow> classify env m b r = Inl ReturnsOverMax"
  by (simp add: classify_def Let_def)

lemma inLoop_error: "inLoop i ts r = Inl e \<Longrightarrow> kind_of_error e = AmbiguousInput"
  by (induction i ts r rule: inLoop.induct) (auto simp: Let_def split: if_splits)

lemma outLoop_error: "outLoop i ts r = Inl e \<Longrightarrow> kind_of_error e = AmbiguousOutput"
  by (induction i ts r rule: outLoop.induct) (auto simp: Let_def split: if_splits)

lemma Validate_error:
  "Validate env r = Some e \<Longrightarrow>
   kind_of_error e \<in> {InvalidInputShape, InvalidOutputShape, MissingOutput}"
  by (auto simp: Validate_def split: option.splits if_splits)

lemma classify_within:
  assumes "length (In (FType (Func r))) \<le> m" "length (Out (FType (Func r))) \<le> 2"
    and "classify env m b r = Inl e"
  shows "kind_of_error e \<notin> {TooManyArguments, TooManyReturns}"
  using assms
  by (auto simp: classify_def Let_def split: sum.splits option.splits
      dest!: inLoop_error outLoop_error Validate_error)

text \<open>
  C4 (as the code has it). The receiver is checked before the counts, and the parameter
  count before the return count. An unbound callable with more than 3 parameters is
  rejected with TooManyArguments. A bound callable whose receiver does not dereference to
  a struct is rejected with InvalidReceiver whatever its counts; with a struct receiver
  and more than 4 parameters it is rejected with TooManyArguments. A callable with more
  than 2 return values whose receiver and parameter count pass is rejected with
  TooManyReturns. A callable within both limits is never rejected with TooManyArguments
  or TooManyReturns.
\<close>

theorem NewResolveInfo_counts:
  "(length (In (FType fn)) > 3 \<longrightarrow> NewResolveInfo env fn False = Inl (ArgsOverMax 3)) \<and>
   (In (FType fn) = recv # rest \<and> Kind (RealType (NewArgInfo recv 0)) \<noteq> KStruct \<longrightarrow>
      NewResolveInfo env fn True = Inl (NotOnStruct recv)) \<and>
   (In (FType fn) = recv # rest \<and> Kind (RealType (NewArgInfo recv 0)) = KStruct \<and>
    length (In (FType fn)) > 4 \<longrightarrow>
      NewResolveInfo env fn True = Inl (ArgsOverMax 4)) \<and>
   (length (In (FType fn)) \<le> 3 \<and> length (Out (FType fn)) > 2 \<longrightarrow>
      NewResolveInfo env fn False = Inl ReturnsOverMax) \<and>
   (In (FType fn) = recv # rest \<and> Kind (RealType (NewArgInfo recv 0)) = KStruct \<and>
    length (In (FType fn)) \<le> 4 \<and> length (Out (FType fn)) > 2 \<longrightarrow>
      NewResolveInfo env fn True = Inl ReturnsOverMax) \<and>
   (length (In (FType fn)) \<le> (if isBound then 4 else 3) \<and> length (Out (FType fn)) \<le> 2 \<and>
    NewResolveInfo env fn isBound = Inl e \<longrightarrow>
      kind_of_error e \<notin> {TooManyArguments, TooManyReturns})"
proof (intro conjI impI)
  assume "length (In (FType fn)) > 3"
  then show "NewResolveInfo env fn False = Inl (ArgsOverMax 3)"
    by (simp add: NewResolveInfo_def classify_over_args)
next
  assume "In (FType fn) = recv # rest \<and> Kind (RealType (NewArgInfo recv 0)) \<noteq> KStruct"
  then show "NewResolveInfo env fn True = Inl (NotOnStruct recv)"
    by (simp add: NewResolveInfo_def NewArgInfo_def Let_def)
next
  assume "In (FType fn) = recv # rest \<and> Kind (RealType (NewArgInfo recv 0)) = KStruct \<and>
    length (In (FType fn)) > 4"
  then show "NewResolveInfo env fn True = Inl (ArgsOverMax 4)"
    by (auto simp: NewResolveInfo_def classify_def Let_def)
next
  assume "length (In (FType fn)) \<le> 3 \<and> length (Out (FType fn)) > 2"
  then show "NewResolveInfo env fn False = Inl ReturnsOverMax"
    by (simp add: NewResolveInfo_def classify_over_returns)
next
  assume "In (FType fn) = recv # rest \<and> Kind (RealType (NewArgInfo recv 0)) = KStruct \<and>
    length (In (FType fn)) \<le> 4 \<and> length (Out (FType fn)) > 2"
  then show "NewResolveInfo env fn True = Inl ReturnsOverMax"
    by (auto simp: NewResolveInfo_def classify_def Let_def)
next
  assume a: "length (In (FType fn)) \<le> (if isBound then 4 else 3) \<and>
    length (Out (FType fn)) \<le> 2 \<and> NewResolveInfo env fn isBound = Inl e"
  show "kind_of_error e \<notin> {TooManyArguments, TooManyReturns}"
  proof (cases isBound)
    case False
    with a have "classify env 3 0 \<lparr>Func = fn, IsBound = False, Source = None, Context = None,
        Info = None, Input = None, Output = None, Error = None\<rparr> = Inl e"
      by (simp add: NewResolveInfo_def)
    from classify_within [OF _ _ this] a False show ?thesis by simp
  next
    case True
    show ?thesis
    proof (cases "In (FType fn)")
      case Nil
      with a True show ?thesis by (auto simp: NewResolveInfo_def)
    next
      case (Cons r0 rs)
      show ?thesis
      proof (cases "Kind (RealType (NewArgInfo r0 0)) = KStruct")
        case False
        with a True Cons show ?thesis by (auto simp: NewResolveInfo_def Let_def)
      next
        case k: True
        with a True Cons have "classify env 4 1 \<lparr>Func = fn, IsBound = True,
            Source = Some (NewArgInfo r0 0), Context = None,
            Info = None, Input = None, Output = None, Error = None\<rparr> = Inl e"
          by (simp add: NewResolveInfo_def Let_def)
        from classify_within [OF _ _ this] a True show ?thesis by simp
      qed
    qed
  qed
qed


theorem NewResolveInfo_counts_witness:
  "NewResolveInfo [] (mkFunc [int_t, int_t, int_t, int_t] [string_t]) False
     = Inl (ArgsOverMax 3) \<and>
   NewResolveInfo [] (mkFunc [int_t] [string_t]) True = Inl (NotOnStruct int_t) \<and>
   NewResolveInfo [] (mkFunc [Host_t, int_t, int_t, int_t, int_t] [string_t]) True
     = Inl (ArgsOverMax 4) \<and>
   NewResolveInfo [] (mkFunc [] [string_t, string_t, string_t]) False = Inl ReturnsOverMax \<and>
   NewResolveInfo [] (mkFunc [Host_t] [string_t, string_t, string_t]) True
     = Inl ReturnsOverMax \<and>
   NewResolveInfo [] (mkFunc [] []) False = Inl UnboundNoOutput \<and>
   kind_of_error UnboundNoOutput \<notin> {TooManyArguments, TooManyReturns}"
proof -
  have a: "NewResolveInfo [] (mkFunc [int_t, int_t, int_t, int_t] [string_t]) False
     = Inl (ArgsOverMax 3)"
    using NewResolveInfo_counts
      [where fn = "mkFunc [int_t, int_t, int_t, int_t] [string_t]" and env = "[]"]
    by (simp add: mkFunc_def)
  have b: "NewResolveInfo [] (mkFunc [int_t] [string_t]) True = Inl (NotOnStruct int_t)"
    using NewResolveInfo_counts
      [where fn = "mkFunc [int_t] [string_t]" and recv = int_t and rest = "[]"
         and env = "[]"]
    by (simp add: mkFunc_def NewArgInfo_def int_t_def)
  have c: "NewResolveInfo [] (mkFunc [Host_t, int_t, int_t, int_t, int_t] [string_t]) True
     = Inl (ArgsOverMax 4)"
    using NewResolveInfo_counts
      [where fn = "mkFunc [Host_t, int_t, int_t, int_t, int_t] [string_t]"
         and recv = Host_t and rest = "[int_t, int_t, int_t, int_t]" and env = "[]"]
    by (simp add: mkFunc_def NewArgInfo_def Host_t_def)
  have d: "NewResolveInfo [] (mkFunc [] [string_t, string_t, string_t]) False
     = Inl ReturnsOverMax"
    using NewResolveInfo_counts
      [where fn = "mkFunc [] [string_t, string_t, string_t]" and env = "[]"]
    by (simp add: mkFunc_def)
  have e: "NewResolveInfo [] (mkFunc [Host_t] [string_t, string_t, string_t]) True
     = Inl ReturnsOverMax"
    using NewResolveInfo_counts
      [where fn = "mkFunc [Host_t] [string_t, string_t, string_t]"
         and recv = Host_t and rest = "[]" and env = "[]"]
    by (simp add: mkFunc_def NewArgInfo_def Host_t_def)
  have f: "NewResolveInfo [] (mkFunc [] []) False = Inl UnboundNoOutput"
    by (simp add: NewResolveInfo_def classify_def mkFunc_def Validate_def)
  have g: "kind_of_error UnboundNoOutput \<notin> {TooManyArguments, TooManyReturns}"
    using NewResolveInfo_counts
      [where fn = "mkFunc [] []" and env = "[]" and isBound = False
         and e = UnboundNoOutput] f
    by (simp add: mkFunc_def)
  show ?thesis using a b c d e f g by simp
qed

text \<open>
  The claim C4 as stated fails on the order of the checks: a bound callable with five
  parameters whose receiver is an \<open>int\<close> is rejected for its receiver, and an unbound
  callable with four parameters and three return values for its parameters.
\<close>

theorem NewResolveInfo_counts_counterexample:
  "length (In (FType (mkFunc [int_t, int_t, int_t, int_t, int_t] []))) > 4 \<and>
   NewResolveInfo [] (mkFunc [int_t, int_t, int_t, int_t, int_t] []) True
     = Inl (NotOnStruct int_t) \<and>
   kind_of_error (NotOnStruct int_t) \<noteq> TooManyArguments \<and>
   length (Out (FType (mkFunc [int_t, int_t, int_t, int_t] [int_t, int_t, int_t]))) > 2 \<and>
   NewResolveInfo [] (mkFunc [int_t, int_t, int_t, int_t] [int_t, int_t, int_t]) False
     = Inl (ArgsOverMax 3) \<and>
   kind_of_error (ArgsOverMax 3) \<noteq> TooManyReturns"
  by (simp add: NewResolveInfo_def mkFunc_def int_t_def NewArgInfo_def classify_def)















subsection \<open>Order of the parameters\<close>




lemma NewArgInfo_index:
  "RealType (NewArgInfo t k) = RealType (NewArgInfo t 0)"
  "Type (NewArgInfo t k) = t" "IsSlice (NewArgInfo t k) = (Kind t = KSlice)"
  by (simp_all add: NewArgInfo_def Let_def)





















end
